theory Spec2Isabelle
  imports Complex_Main
begin

section \<open>Python and numpy primitives used by the simulator\<close>

text \<open>
  The model follows \<^verbatim>\<open>qtt/simulation/classicaldotsystem.py\<close>. Python integers are
  \<^typ>\<open>int\<close>; numpy floating-point values are idealised as \<^typ>\<open>real\<close> (no rounding,
  no overflow, no NaN). Counts given by the user (\<^verbatim>\<open>ndots\<close>, \<^verbatim>\<open>ngates\<close>,
  \<^verbatim>\<open>maxelectrons\<close>) are \<^typ>\<open>nat\<close>. A raised exception is the \<open>Inl\<close> of a sum.
\<close>

datatype py_error =
  TypeError | ValueError | IndexError | AxisError | AttributeError | ZeroDivisionError

text \<open>\<^verbatim>\<open>range(start, stop)\<close> and \<^verbatim>\<open>range(start, stop, -1)\<close>.\<close>

definition range2 :: "int \<Rightarrow> int \<Rightarrow> int list" where
  "range2 start stop = [start..stop - 1]"

definition range_down :: "int \<Rightarrow> int \<Rightarrow> int list" where
  "range_down start stop = rev [stop + 1..start]"

text \<open>\<^verbatim>\<open>functools.reduce\<close> without an initial value: an empty iterable raises.\<close>

fun reduce :: "('a \<Rightarrow> 'a \<Rightarrow> 'a) \<Rightarrow> 'a list \<Rightarrow> py_error + 'a" where
  "reduce f [] = Inl TypeError"
| "reduce f (x # xs) = Inr (foldl f x xs)"

text \<open>Integer floor division \<^verbatim>\<open>//\<close>.\<close>

definition floordiv :: "int \<Rightarrow> int \<Rightarrow> py_error + int" where
  "floordiv a b = (if b = 0 then Inl ZeroDivisionError else Inr (a div b))"

text \<open>Subscripting a sequence with a non-negative index.\<close>

definition getitem :: "'a list \<Rightarrow> nat \<Rightarrow> py_error + 'a" where
  "getitem xs i = (if i < length xs then Inr (xs ! i) else Inl IndexError)"

text \<open>
  \<^verbatim>\<open>itertools.product(pool, repeat=n)\<close>, as its documentation defines it: start from the
  single empty tuple and extend every tuple by every pool element, once per repetition.
\<close>

fun product_repeat :: "'a list \<Rightarrow> nat \<Rightarrow> 'a list list" where
  "product_repeat pool 0 = [[]]"
| "product_repeat pool (Suc n) =
     concat (map (\<lambda>x. map (\<lambda>y. x @ [y]) pool) (product_repeat pool n))"

text \<open>\<^verbatim>\<open>itertools.combinations(xs, 2)\<close>: all pairs of positions, in lexicographic order.\<close>

fun combinations2 :: "'a list \<Rightarrow> ('a \<times> 'a) list" where
  "combinations2 [] = []"
| "combinations2 (x # xs) = map (Pair x) xs @ combinations2 xs"

text \<open>\<^verbatim>\<open>np.dot\<close> of two vectors, and of a matrix (a list of rows) with a vector.\<close>

definition np_dot :: "real list \<Rightarrow> real list \<Rightarrow> py_error + real" where
  "np_dot a b =
     (if length a = length b then Inr (sum_list (map2 (*) a b)) else Inl ValueError)"

definition np_dot_mv :: "real list list \<Rightarrow> real list \<Rightarrow> py_error + real list" where
  "np_dot_mv a v =
     (if list_all (\<lambda>row. length row = length v) a
      then Inr (map (\<lambda>row. sum_list (map2 (*) row v)) a)
      else Inl ValueError)"

text \<open>Addition of two vectors with numpy's broadcasting of a one-element operand.\<close>

definition np_add :: "real list \<Rightarrow> real list \<Rightarrow> py_error + real list" where
  "np_add a b =
     (if length a = length b then Inr (map2 (+) a b)
      else if length a = 1 then Inr (map (\<lambda>y. hd a + y) b)
      else if length b = 1 then Inr (map (\<lambda>x. x + hd b) a)
      else Inl ValueError)"

text \<open>Storing a float into an integer array truncates towards zero.\<close>

definition trunc :: "real \<Rightarrow> int" where
  "trunc x = (if 0 \<le> x then \<lfloor>x\<rfloor> else \<lceil>x\<rceil>)"

text \<open>
  \<^verbatim>\<open>row[...] = values\<close> for a one-dimensional target: equal lengths copy, a single
  value is broadcast, any other length raises.
\<close>

definition setitem_row :: "'a list \<Rightarrow> 'a list \<Rightarrow> py_error + 'a list" where
  "setitem_row row vs =
     (if length vs = length row then Inr vs
      else if length vs = 1 then Inr (replicate (length row) (hd vs))
      else Inl ValueError)"

text \<open>
  \<^verbatim>\<open>np.argmin\<close>: a left-to-right scan that moves to a later index only for a strictly
  smaller value; an empty array raises.
\<close>

fun argmin_scan :: "real list \<Rightarrow> nat \<Rightarrow> nat \<Rightarrow> real \<Rightarrow> nat" where
  "argmin_scan [] i best bv = best"
| "argmin_scan (x # xs) i best bv =
     (if x < bv then argmin_scan xs (Suc i) i x else argmin_scan xs (Suc i) best bv)"

definition np_argmin :: "real list \<Rightarrow> py_error + nat" where
  "np_argmin xs = (case xs of [] \<Rightarrow> Inl ValueError | x # rest \<Rightarrow> Inr (argmin_scan rest 1 0 x))"

text \<open>
  A three-dimensional numpy array together with its element type: \<^verbatim>\<open>np.empty\<close> makes a
  float array, \<^verbatim>\<open>np.array\<close> of integer rows an integer array.
\<close>

datatype ndarray3 = IntArray "int list list list" | FloatArray "real list list list"

definition np_empty3 :: "(nat \<Rightarrow> nat \<Rightarrow> nat \<Rightarrow> real) \<Rightarrow> nat \<Rightarrow> nat \<Rightarrow> nat \<Rightarrow> real list list list" where
  "np_empty3 uninit a b c =
     map (\<lambda>i. map (\<lambda>j. map (\<lambda>k. uninit i j k) [0..<c]) [0..<b]) [0..<a]"

definition unflatten3 :: "'a list \<Rightarrow> nat \<Rightarrow> nat \<Rightarrow> nat \<Rightarrow> 'a list list list" where
  "unflatten3 flat a b c =
     map (\<lambda>i. map (\<lambda>j. map (\<lambda>k. flat ! ((i * b + j) * c + k)) [0..<c]) [0..<b]) [0..<a]"

text \<open>
  \<^verbatim>\<open>np.reshape(np.array(result), (a, b, c))\<close> for a list of integer rows: an empty list
  gives an (empty) float array, rows of unequal length or a wrong total size raise.
\<close>

definition reshape_array :: "int list list \<Rightarrow> nat \<Rightarrow> nat \<Rightarrow> nat \<Rightarrow> py_error + ndarray3" where
  "reshape_array result a b c =
     (if \<not> list_all (\<lambda>r. length r = length (hd result)) result then Inl ValueError
      else if length (concat result) \<noteq> a * b * c then Inl ValueError
      else if result = [] then Inr (FloatArray (unflatten3 [] a b c))
      else Inr (IntArray (unflatten3 (concat result) a b c)))"

text \<open>\<^verbatim>\<open>arr[i, j] = values\<close> on a three-dimensional array; integers become floats in a float array.\<close>

definition setitem2 :: "ndarray3 \<Rightarrow> nat \<Rightarrow> nat \<Rightarrow> int list \<Rightarrow> py_error + ndarray3" where
  "setitem2 arr i j vs =
     (case arr of
        FloatArray h \<Rightarrow>
          (if i < length h \<and> j < length (h ! i)
           then (case setitem_row (h ! i ! j) (map real_of_int vs) of
                   Inl e \<Rightarrow> Inl e
                 | Inr row \<Rightarrow> Inr (FloatArray (h[i := (h ! i)[j := row]])))
           else Inl IndexError)
      | IntArray h \<Rightarrow>
          (if i < length h \<and> j < length (h ! i)
           then (case setitem_row (h ! i ! j) vs of
                   Inl e \<Rightarrow> Inl e
                 | Inr row \<Rightarrow> Inr (IntArray (h[i := (h ! i)[j := row]])))
           else Inl IndexError))"

text \<open>\<^verbatim>\<open>Pool.map\<close>: the results in the order of the inputs; a failing task fails the map.\<close>

fun pool_map :: "('a \<Rightarrow> py_error + 'b) \<Rightarrow> 'a list \<Rightarrow> py_error + 'b list" where
  "pool_map f [] = Inr []"
| "pool_map f (x # xs) =
     (case f x of
        Inl e \<Rightarrow> Inl e
      | Inr y \<Rightarrow> (case pool_map f xs of Inl e \<Rightarrow> Inl e | Inr ys \<Rightarrow> Inr (y # ys)))"

section \<open>The combinatorics helper\<close>

definition ncr :: "int \<Rightarrow> int \<Rightarrow> py_error + int" where
  "ncr n r0 =
     (let r = min r0 (n - r0) in
      if r = 0 then Inr 1
      else (case reduce (*) (range_down n (n - r)) of
              Inl e \<Rightarrow> Inl e
            | Inr numer \<Rightarrow>
                (case reduce (*) (range2 1 (r + 1)) of
                   Inl e \<Rightarrow> Inl e
                 | Inr denom \<Rightarrow> floordiv numer denom)))"

section \<open>The dot system\<close>

text \<open>
  The attributes of \<^verbatim>\<open>ClassicalDotSystem\<close>. An attribute that is \<^verbatim>\<open>None\<close> or not yet
  created is \<open>None\<close>. The results of the external \<^verbatim>\<open>findtransitions\<close> have the
  abstract types \<open>'h\<close> and \<open>'d\<close>.
\<close>

record ('h, 'd) dotsystem =
  name :: string
  ndots :: nat
  ngates :: nat
  maxelectrons :: nat
  basis :: "int list list option"
  nbasis :: "int list option"
  Nt :: "nat option"
  varnames :: "string list"
  mu0 :: "real list"
  Eadd :: "real list"
  W :: "real list"
  alpha :: "real list list"
  add_basis :: "int list list option"
  coulomb_energy :: "real list list option"
  hcgs :: "ndarray3 option"
  honeycomb :: "'h option"
  deloc :: "'d option"

definition init :: "string \<Rightarrow> nat \<Rightarrow> nat \<Rightarrow> nat \<Rightarrow> py_error + ('h, 'd) dotsystem" where
  "init nm nd ng me =
     (case ncr (int nd) 2 of
        Inl e \<Rightarrow> Inl e
      | Inr k \<Rightarrow>
          if k < 0 then Inl ValueError
          else Inr \<lparr> name = nm, ndots = nd, ngates = ng, maxelectrons = me,
                     basis = None, nbasis = None, Nt = None,
                     varnames = [''mu0'', ''Eadd'', ''W'', ''alpha''],
                     mu0 = replicate nd 0, Eadd = replicate nd 0,
                     W = replicate (nat k) 0, alpha = replicate nd (replicate ng 0),
                     add_basis = None, coulomb_energy = None,
                     hcgs = None, honeycomb = None, deloc = None \<rparr>)"

text \<open>The two cached rows that the loop of \<^verbatim>\<open>makebasis\<close> computes for one basis state.\<close>

definition add_basis_row :: "int list \<Rightarrow> int list" where
  "add_basis_row occ =
     map (\<lambda>x. trunc (1 / 2 * real_of_int x)) (map2 (*) occ (map (\<lambda>n. n + 1) occ))"

definition coulomb_row :: "int list \<Rightarrow> real list" where
  "coulomb_row occ = map (\<lambda>(x, y). real_of_int (x * y)) (combinations2 occ)"

fun makebasis_loop ::
  "int list list \<Rightarrow> nat list \<Rightarrow> int list list \<times> real list list
     \<Rightarrow> py_error + (int list list \<times> real list list)" where
  "makebasis_loop b [] (ab, ce) = Inr (ab, ce)"
| "makebasis_loop b (i # rest) (ab, ce) =
     (case setitem_row (ce ! i) (coulomb_row (b ! i)) of
        Inl e \<Rightarrow> Inl e
      | Inr row \<Rightarrow> makebasis_loop b rest (ab[i := add_basis_row (b ! i)], ce[i := row]))"

definition makebasis :: "('h, 'd) dotsystem \<Rightarrow> py_error + ('h, 'd) dotsystem" where
  "makebasis m =
     (let b = sort_key sum_list
                (product_repeat (range2 0 (int (maxelectrons m) + 1)) (ndots m))
      in if b = [] then Inl AxisError
         else let nb = map sum_list b; nt = length nb
              in (case makebasis_loop b [0..<nt]
                         (b, replicate (length b) (replicate (length (W m)) 0)) of
                    Inl e \<Rightarrow> Inl e
                  | Inr (ab, ce) \<Rightarrow>
                      Inr (m\<lparr>basis := Some b, nbasis := Some nb, Nt := Some nt,
                             add_basis := Some ab, coulomb_energy := Some ce\<rparr>)))"

text \<open>The assignments of a device preset after \<^verbatim>\<open>makebasis\<close>.\<close>

definition set_params ::
  "real list \<Rightarrow> real list \<Rightarrow> real list \<Rightarrow> real list list
     \<Rightarrow> ('h, 'd) dotsystem \<Rightarrow> ('h, 'd) dotsystem" where
  "set_params mu ea w al m = m\<lparr>mu0 := mu, Eadd := ea, W := w, alpha := al\<rparr>"

text \<open>The body of the loop of \<^verbatim>\<open>calculate_energies\<close>: the energy of basis state \<open>i\<close>.\<close>

definition state_energy :: "('h, 'd) dotsystem \<Rightarrow> real list \<Rightarrow> nat \<Rightarrow> py_error + real" where
  "state_energy m tmp1 i =
     (case basis m of None \<Rightarrow> Inl TypeError | Some b \<Rightarrow>
      (case getitem b i of Inl e \<Rightarrow> Inl e | Inr bi \<Rightarrow>
       (case np_dot tmp1 (map real_of_int bi) of Inl e \<Rightarrow> Inl e | Inr e1 \<Rightarrow>
        (case coulomb_energy m of None \<Rightarrow> Inl AttributeError | Some ce \<Rightarrow>
         (case getitem ce i of Inl e \<Rightarrow> Inl e | Inr ci \<Rightarrow>
          (case np_dot ci (W m) of Inl e \<Rightarrow> Inl e | Inr e2 \<Rightarrow>
           (case add_basis m of None \<Rightarrow> Inl AttributeError | Some ab \<Rightarrow>
            (case getitem ab i of Inl e \<Rightarrow> Inl e | Inr ai \<Rightarrow>
             (case np_dot (map real_of_int ai) (Eadd m) of Inl e \<Rightarrow> Inl e | Inr e3 \<Rightarrow>
                Inr (0 + e1 + e2 + e3))))))))))"

fun energies_loop ::
  "('h, 'd) dotsystem \<Rightarrow> real list \<Rightarrow> nat list \<Rightarrow> real list \<Rightarrow> py_error + real list" where
  "energies_loop m tmp1 [] energies = Inr energies"
| "energies_loop m tmp1 (i # rest) energies =
     (case state_energy m tmp1 i of
        Inl e \<Rightarrow> Inl e
      | Inr energy \<Rightarrow> energies_loop m tmp1 rest (energies[i := energy]))"

text \<open>
  The methods take the object and return it with their result, so that what they do to
  the object is part of the model.
\<close>

definition calculate_energies ::
  "real list \<Rightarrow> ('h, 'd) dotsystem \<Rightarrow> (py_error + real list) \<times> ('h, 'd) dotsystem" where
  "calculate_energies gatevalues m =
     (case Nt m of
        None \<Rightarrow> (Inl TypeError, m)
      | Some nt \<Rightarrow>
          (case np_dot_mv (alpha m) gatevalues of
             Inl e \<Rightarrow> (Inl e, m)
           | Inr ag \<Rightarrow>
               (case np_add (mu0 m) ag of
                  Inl e \<Rightarrow> (Inl e, m)
                | Inr s \<Rightarrow> (energies_loop m (map uminus s) [0..<nt] (replicate nt 0), m))))"

definition calculate_ground_state ::
  "real list \<Rightarrow> ('h, 'd) dotsystem \<Rightarrow> (py_error + int list) \<times> ('h, 'd) dotsystem" where
  "calculate_ground_state gatevalues m =
     (case calculate_energies gatevalues m of
        (Inl e, m') \<Rightarrow> (Inl e, m')
      | (Inr energies, m') \<Rightarrow>
          (case np_argmin energies of
             Inl e \<Rightarrow> (Inl e, m')
           | Inr k \<Rightarrow>
               (case basis m' of
                  None \<Rightarrow> (Inl TypeError, m')
                | Some b \<Rightarrow> (getitem b k, m'))))"

section \<open>The sweep over a voltage grid\<close>

text \<open>The argument \<^verbatim>\<open>paramvalues2D\<close>: a three-dimensional array with its shape.\<close>

record grid =
  shape0 :: nat
  shape1 :: nat
  shape2 :: nat
  elem :: "nat \<Rightarrow> nat \<Rightarrow> nat \<Rightarrow> real"

text \<open>\<^verbatim>\<open>paramvalues2D[:, i, j]\<close>.\<close>

definition column :: "grid \<Rightarrow> nat \<Rightarrow> nat \<Rightarrow> real list" where
  "column p i j = map (\<lambda>k. elem p k i j) [0..<shape0 p]"

text \<open>What the method prints; the elapsed time itself is not modelled.\<close>

datatype message = MismatchMsg nat nat | ProgressMsg nat nat | ElapsedMsg

fun honeycomb_row ::
  "grid \<Rightarrow> nat \<Rightarrow> nat list \<Rightarrow> ('h, 'd) dotsystem \<Rightarrow> py_error + ('h, 'd) dotsystem" where
  "honeycomb_row p i [] m = Inr m"
| "honeycomb_row p i (j # rest) m =
     (case calculate_ground_state (column p i j) m of
        (Inl e, m') \<Rightarrow> Inl e
      | (Inr gs, m') \<Rightarrow>
          (case hcgs m' of
             None \<Rightarrow> Inl AttributeError
           | Some arr \<Rightarrow>
               (case setitem2 arr i j gs of
                  Inl e \<Rightarrow> Inl e
                | Inr arr' \<Rightarrow> honeycomb_row p i rest (m'\<lparr>hcgs := Some arr'\<rparr>))))"

fun honeycomb_rows ::
  "grid \<Rightarrow> bool \<Rightarrow> nat \<Rightarrow> nat \<Rightarrow> nat list \<Rightarrow> ('h, 'd) dotsystem \<times> message list
     \<Rightarrow> py_error + (('h, 'd) dotsystem \<times> message list)" where
  "honeycomb_rows p verbose npointsx npointsy [] (m, out) = Inr (m, out)"
| "honeycomb_rows p verbose npointsx npointsy (i # rest) (m, out) =
     (case honeycomb_row p i [0..<npointsy] m of
        Inl e \<Rightarrow> Inl e
      | Inr m' \<Rightarrow>
          honeycomb_rows p verbose npointsx npointsy rest
            (m', if verbose then out @ [ProgressMsg i npointsx] else out))"

text \<open>
  \<^verbatim>\<open>simulate_honeycomb\<close>. The external \<^verbatim>\<open>findtransitions\<close>, the contents of freshly
  allocated memory and the availability of \<^verbatim>\<open>multiprocessing\<close> are parameters. The
  result is the object after the call and what was printed.
\<close>

definition simulate_honeycomb ::
  "(ndarray3 \<Rightarrow> 'h \<times> 'd) \<Rightarrow> (nat \<Rightarrow> nat \<Rightarrow> nat \<Rightarrow> real) \<Rightarrow> bool
     \<Rightarrow> grid \<Rightarrow> bool \<Rightarrow> bool \<Rightarrow> bool \<Rightarrow> ('h, 'd) dotsystem
     \<Rightarrow> py_error + (('h, 'd) dotsystem \<times> message list)" where
  "simulate_honeycomb findtransitions uninit have_mp paramvalues2D verbose usediag multiprocess m =
     (let nparams = shape0 paramvalues2D;
          npointsx = shape1 paramvalues2D;
          npointsy = shape2 paramvalues2D
      in if nparams \<noteq> ngates m then Inr (m, [MismatchMsg nparams (ngates m)])
         else
           let m1 = m\<lparr>hcgs := Some (FloatArray (np_empty3 uninit npointsx npointsy (ndots m)))\<rparr>
           in (case (if multiprocess \<and> have_mp
                     then (case pool_map (\<lambda>g. fst (calculate_ground_state g m1))
                                  (concat (map (\<lambda>i. map (\<lambda>j. column paramvalues2D i j)
                                                       [0..<npointsy]) [0..<npointsx])) of
                             Inl e \<Rightarrow> Inl e
                           | Inr result \<Rightarrow>
                               (case reshape_array result npointsx npointsy (ndots m1) of
                                  Inl e \<Rightarrow> Inl e
                                | Inr arr \<Rightarrow> Inr (m1\<lparr>hcgs := Some arr\<rparr>, [])))
                     else honeycomb_rows paramvalues2D verbose npointsx npointsy
                            [0..<npointsx] (m1, [])) of
                 Inl e \<Rightarrow> Inl e
               | Inr (m2, out) \<Rightarrow>
                   (case hcgs m2 of
                      None \<Rightarrow> Inl AttributeError
                    | Some arr \<Rightarrow>
                        (case findtransitions arr of
                           (hc, dl) \<Rightarrow>
                             Inr (m2\<lparr>honeycomb := Some hc, deloc := Some dl\<rparr>,
                                  if verbose then out @ [ElapsedMsg] else out)))))"

section \<open>Notions of the specification\<close>

text \<open>The ordinary dot product of two vectors, as a sum over the positions.\<close>

definition dot_product :: "real list \<Rightarrow> real list \<Rightarrow> real" where
  "dot_product a b = (\<Sum>k<length a. a ! k * b ! k)"

text \<open>The unordered pairs of \<open>n\<close> dots in lexicographic order: (0,1), (0,2), ..., (1,2), ...\<close>

definition pairs_lex :: "nat \<Rightarrow> (nat \<times> nat) list" where
  "pairs_lex n = concat (map (\<lambda>a. map (Pair a) [Suc a..<n]) [0..<n])"


text \<open>The invariants on the shapes of the parameters.\<close>

definition shapes_ok :: "('h, 'd) dotsystem \<Rightarrow> bool" where
  "shapes_ok m \<longleftrightarrow>
     length (mu0 m) = ndots m \<and> length (Eadd m) = ndots m \<and>
     length (W m) = ndots m choose 2 \<and> length (alpha m) = ndots m \<and>
     list_all (\<lambda>row. length row = ngates m) (alpha m)"

text \<open>The numbers held by an array, whatever its element type.\<close>

definition array_values :: "ndarray3 \<Rightarrow> real list list list" where
  "array_values arr =
     (case arr of IntArray h \<Rightarrow> map (map (map real_of_int)) h | FloatArray h \<Rightarrow> h)"

definition is_float :: "ndarray3 \<Rightarrow> bool" where
  "is_float arr = (case arr of IntArray h \<Rightarrow> False | FloatArray h \<Rightarrow> True)"

text \<open>The combinatorial product in its natural enumeration order, before sorting.\<close>

definition enumeration :: "nat \<Rightarrow> nat \<Rightarrow> int list list" where
  "enumeration nd me = product_repeat (range2 0 (int me + 1)) nd"

section \<open>The device presets\<close>

definition TripleDot :: "string \<Rightarrow> nat \<Rightarrow> py_error + ('h, 'd) dotsystem" where
  "TripleDot nm me =
     (case init nm 3 3 me of
        Inl e \<Rightarrow> Inl e
      | Inr m \<Rightarrow>
          (case makebasis m of
             Inl e \<Rightarrow> Inl e
           | Inr m' \<Rightarrow>
               Inr (set_params [-27, -20, -25] [54, 52.8, 54] [6, 1, 5]
                      [[1, 0.25, 0.1], [0.25, 1, 0.25], [0.1, 0.25, 1]] m')))"

definition DoubleDot :: "string \<Rightarrow> nat \<Rightarrow> py_error + ('h, 'd) dotsystem" where
  "DoubleDot nm me =
     (case init nm 2 2 me of
        Inl e \<Rightarrow> Inl e
      | Inr m \<Rightarrow>
          (case makebasis m of
             Inl e \<Rightarrow> Inl e
           | Inr m' \<Rightarrow>
               Inr (set_params [120, 100] [54, 52.8] [6] [[1, 0.25], [0.25, 1]] m')))"

text \<open>The object that \<^verbatim>\<open>ClassicalDotSystem('doubledot', ndots=2, ngates=2, maxelectrons=me)\<close> constructs.\<close>

definition doubledot_blank :: "nat \<Rightarrow> (unit, unit) dotsystem" where
  "doubledot_blank me =
     \<lparr> name = ''doubledot'', ndots = 2, ngates = 2, maxelectrons = me,
       basis = None, nbasis = None, Nt = None,
       varnames = [''mu0'', ''Eadd'', ''W'', ''alpha''],
       mu0 = [0, 0], Eadd = [0, 0], W = [0], alpha = [[0, 0], [0, 0]],
       add_basis = None, coulomb_energy = None,
       hcgs = None, honeycomb = None, deloc = None \<rparr>"

section \<open>The basis and its caches\<close>


lemma length_concat_map_const:
  "length (concat (map (\<lambda>x. map (f x) pool) xs)) = length xs * length pool"
  by (induction xs) auto

lemma length_product_repeat: "length (product_repeat pool n) = length pool ^ n"
  by (induction n) (simp_all add: length_concat_map_const)

lemma set_product_repeat_Suc:
  "set (product_repeat pool (Suc n)) =
     {x @ [y] | x y. x \<in> set (product_repeat pool n) \<and> y \<in> set pool}"
  by (simp only: product_repeat.simps) auto

lemma set_product_repeat:
  "set (product_repeat pool n) = {xs. length xs = n \<and> set xs \<subseteq> set pool}"
proof (induction n)
  case 0
  then show ?case by auto
next
  case (Suc n)
  have "{x @ [y] | x y. x \<in> {xs. length xs = n \<and> set xs \<subseteq> set pool} \<and> y \<in> set pool}
      = {xs. length xs = Suc n \<and> set xs \<subseteq> set pool}" (is "?L = ?R")
  proof (rule set_eqI, rule iffI)
    fix zs assume "zs \<in> ?L"
    then show "zs \<in> ?R" by auto
  next
    fix zs assume "zs \<in> ?R"
    then have l: "length zs = Suc n" and s: "set zs \<subseteq> set pool" by simp_all
    from l have ne: "zs \<noteq> []" by auto
    have b: "length (butlast zs) = n" using l by simp
    have sb: "set (butlast zs) \<subseteq> set pool" using s by (meson in_set_butlastD subset_iff)
    have la: "last zs \<in> set pool" using ne s by (meson last_in_set subset_iff)
    have "zs = butlast zs @ [last zs]" using ne by simp
    then show "zs \<in> ?L" using b sb la by blast
  qed
  then show ?case unfolding set_product_repeat_Suc Suc.IH .
qed

lemma length_combinations2: "length (combinations2 xs) = length xs choose 2"
  by (induction xs) (simp_all add: numeral_2_eq_2)

lemma length_coulomb_row: "length (coulomb_row occ) = length occ choose 2"
  by (simp add: coulomb_row_def length_combinations2)


lemma makebasis_loop_result:
  assumes "\<forall>i\<in>set idx. i < length ab \<and> i < length ce"
      and "\<forall>i<length ce. length (ce ! i) = w"
      and "\<forall>i\<in>set idx. length (coulomb_row (b ! i)) = w"
  shows "makebasis_loop b idx (ab, ce) =
           Inr (map (\<lambda>j. if j \<in> set idx then add_basis_row (b ! j) else ab ! j) [0..<length ab],
                map (\<lambda>j. if j \<in> set idx then coulomb_row (b ! j) else ce ! j) [0..<length ce])"
  using assms
proof (induction idx arbitrary: ab ce)
  case Nil
  then show ?case by (simp add: map_nth)
next
  case (Cons i rest)
  let ?ab = "ab[i := add_basis_row (b ! i)]"
  let ?ce = "ce[i := coulomb_row (b ! i)]"
  have i: "i < length ab" "i < length ce" using Cons.prems(1) by auto
  have row: "setitem_row (ce ! i) (coulomb_row (b ! i)) = Inr (coulomb_row (b ! i))"
    using Cons.prems i by (simp add: setitem_row_def)
  have ce': "\<forall>j<length ?ce. length (?ce ! j) = w"
    using Cons.prems by (auto simp: nth_list_update)
  have "makebasis_loop b rest (?ab, ?ce) =
           Inr (map (\<lambda>j. if j \<in> set rest then add_basis_row (b ! j) else ?ab ! j) [0..<length ?ab],
                map (\<lambda>j. if j \<in> set rest then coulomb_row (b ! j) else ?ce ! j) [0..<length ?ce])"
    using Cons.prems ce' by (intro Cons.IH) auto
  moreover have "map (\<lambda>j. if j \<in> set rest then add_basis_row (b ! j) else ?ab ! j) [0..<length ?ab]
      = map (\<lambda>j. if j \<in> set (i # rest) then add_basis_row (b ! j) else ab ! j) [0..<length ab]"
    using i by (auto simp: nth_list_update)
  moreover have "map (\<lambda>j. if j \<in> set rest then coulomb_row (b ! j) else ?ce ! j) [0..<length ?ce]
      = map (\<lambda>j. if j \<in> set (i # rest) then coulomb_row (b ! j) else ce ! j) [0..<length ce]"
    using i by (auto simp: nth_list_update)
  ultimately show ?case using row by simp
qed



lemma length_range2_0: "length (range2 0 (int me + 1)) = Suc me"
  by (simp add: range2_def)

lemma set_range2_0: "set (range2 0 (int me + 1)) = {0..int me}"
  by (simp add: range2_def)

lemma length_enumeration: "length (enumeration nd me) = (me + 1) ^ nd"
  by (simp add: enumeration_def length_product_repeat length_range2_0)

lemma set_enumeration:
  "set (enumeration nd me) = {occ. length occ = nd \<and> set occ \<subseteq> {0..int me}}"
  by (simp add: enumeration_def set_product_repeat set_range2_0)

lemma map_nth_fun: "map (\<lambda>j. f (xs ! j)) [0..<length xs] = map f xs"
  by (rule nth_equalityI) simp_all

lemma makebasis_result:
  assumes "length (W m) = ndots m choose 2"
  defines "B \<equiv> sort_key sum_list (enumeration (ndots m) (maxelectrons m))"
  shows "makebasis m =
           Inr (m\<lparr>basis := Some B, nbasis := Some (map sum_list B), Nt := Some (length B),
                  add_basis := Some (map add_basis_row B),
                  coulomb_energy := Some (map coulomb_row B)\<rparr>)"
proof -
  have lenB: "length B = (maxelectrons m + 1) ^ ndots m"
    by (simp add: B_def length_enumeration)
  then have ne: "B \<noteq> []" by auto
  have rows: "length occ = ndots m" if "occ \<in> set B" for occ
    using that by (simp add: B_def set_enumeration)
  let ?ce = "replicate (length B) (replicate (length (W m)) (0::real))"
  have "makebasis_loop B [0..<length B] (B, ?ce) =
           Inr (map (\<lambda>j. if j \<in> set [0..<length B] then add_basis_row (B ! j) else B ! j) [0..<length B],
                map (\<lambda>j. if j \<in> set [0..<length B] then coulomb_row (B ! j) else ?ce ! j) [0..<length ?ce])"
    using assms(1) rows by (intro makebasis_loop_result[where w = "length (W m)"])
      (simp_all add: length_coulomb_row)
  also have "map (\<lambda>j. if j \<in> set [0..<length B] then add_basis_row (B ! j) else B ! j) [0..<length B]
      = map add_basis_row B"
    by (rule nth_equalityI) simp_all
  also have "map (\<lambda>j. if j \<in> set [0..<length B] then coulomb_row (B ! j) else ?ce ! j) [0..<length ?ce]
      = map coulomb_row B"
    by (rule nth_equalityI) simp_all
  finally have loop: "makebasis_loop B [0..<length B] (B, ?ce) =
      Inr (map add_basis_row B, map coulomb_row B)" .
  have B: "sort_key sum_list (product_repeat (range2 0 (int (maxelectrons m) + 1)) (ndots m)) = B"
    by (simp add: B_def enumeration_def)
  show ?thesis
    unfolding makebasis_def B Let_def using ne loop by simp
qed


lemma init_doubledot: "init ''doubledot'' 2 2 me = Inr (doubledot_blank me)"
  by (simp add: init_def ncr_def doubledot_blank_def numeral_2_eq_2)


text \<open>
  Claim C2. On an object whose \<open>W\<close> has one entry per pair of dots (as the constructor
  leaves it), \<^verbatim>\<open>makebasis\<close> succeeds and stores a basis of \<open>(maxelectrons + 1) ^ ndots\<close>
  occupation vectors, each of length \<open>ndots\<close> with entries between 0 and \<open>maxelectrons\<close>,
  in order of non-decreasing total occupancy; vectors of equal total occupancy keep the
  order of the combinatorial product. For two dots and at most three electrons the basis
  has 16 entries.
\<close>

theorem makebasis_basis:
  assumes "length (W m) = ndots m choose 2"
  shows "\<exists>m' B. makebasis m = Inr m' \<and> basis m' = Some B
           \<and> nbasis m' = Some (map sum_list B) \<and> Nt m' = Some (length B)
           \<and> length B = (maxelectrons m + 1) ^ ndots m
           \<and> (\<forall>occ\<in>set B. length occ = ndots m
                  \<and> (\<forall>x\<in>set occ. 0 \<le> x \<and> x \<le> int (maxelectrons m)))
           \<and> sorted (map sum_list B)
           \<and> (\<forall>k. filter (\<lambda>occ. sum_list occ = k) B
                    = filter (\<lambda>occ. sum_list occ = k) (enumeration (ndots m) (maxelectrons m)))
           \<and> (ndots m = 2 \<and> maxelectrons m = 3 \<longrightarrow> length B = 16)"
proof -
  define B where "B = sort_key sum_list (enumeration (ndots m) (maxelectrons m))"
  let ?m' = "m\<lparr>basis := Some B, nbasis := Some (map sum_list B), Nt := Some (length B),
                  add_basis := Some (map add_basis_row B),
                  coulomb_energy := Some (map coulomb_row B)\<rparr>"
  have mk: "makebasis m = Inr ?m'"
    using makebasis_result[OF assms] by (simp add: B_def)
  have len: "length B = (maxelectrons m + 1) ^ ndots m"
    by (simp add: B_def length_enumeration)
  have valid: "\<forall>occ\<in>set B. length occ = ndots m
                  \<and> (\<forall>x\<in>set occ. 0 \<le> x \<and> x \<le> int (maxelectrons m))"
    by (auto simp: B_def set_enumeration)
  have srt: "sorted (map sum_list B)"
    by (simp add: B_def)
  have stable: "\<forall>k. filter (\<lambda>occ. sum_list occ = k) B
                    = filter (\<lambda>occ. sum_list occ = k) (enumeration (ndots m) (maxelectrons m))"
    by (simp add: B_def sort_key_stable)
  have sixteen: "ndots m = 2 \<and> maxelectrons m = 3 \<longrightarrow> length B = 16"
    using len by auto
  have f: "basis ?m' = Some B" "nbasis ?m' = Some (map sum_list B)" "Nt ?m' = Some (length B)"
    by simp_all
  show ?thesis
    using mk f len valid srt stable sixteen by blast
qed

theorem makebasis_basis_witness:
  "\<exists>m' B. makebasis (doubledot_blank 3) = Inr m' \<and> basis m' = Some B \<and> length B = 16
      \<and> sorted (map sum_list B)"
proof -
  have h: "length (W (doubledot_blank 3)) = ndots (doubledot_blank 3) choose 2"
    by (simp add: doubledot_blank_def)
  have d: "ndots (doubledot_blank 3) = 2 \<and> maxelectrons (doubledot_blank 3) = 3"
    by (simp add: doubledot_blank_def)
  from makebasis_basis[OF h] d show ?thesis by blast
qed
section \<open>The cached Coulomb terms\<close>


lemma pairs_lex_Suc:
  "pairs_lex (Suc n) =
     map (Pair 0) [1..<Suc n] @ map (\<lambda>(a, b). (Suc a, Suc b)) (pairs_lex n)"
proof -
  have up: "[0..<Suc n] = 0 # map Suc [0..<n]"
    by (simp add: upt_conv_Cons map_Suc_upt del: upt_Suc)
  have inner: "map (Pair (Suc a)) [Suc (Suc a)..<Suc n]
      = map (\<lambda>(a, b). (Suc a, Suc b)) (map (Pair a) [Suc a..<n])" for a
    by (simp add: map_Suc_upt[symmetric] del: upt_Suc)
  have "pairs_lex (Suc n) = map (Pair 0) [1..<Suc n]
      @ concat (map (\<lambda>a. map (Pair (Suc a)) [Suc (Suc a)..<Suc n]) [0..<n])"
    unfolding pairs_lex_def up by (simp add: comp_def del: upt_Suc)
  also have "concat (map (\<lambda>a. map (Pair (Suc a)) [Suc (Suc a)..<Suc n]) [0..<n])
      = map (\<lambda>(a, b). (Suc a, Suc b)) (pairs_lex n)"
    unfolding pairs_lex_def inner by (simp add: map_concat comp_def)
  finally show ?thesis .
qed



lemma length_pairs_lex: "length (pairs_lex n) = n choose 2"
  by (induction n) (simp_all add: pairs_lex_Suc numeral_2_eq_2 del: upt_Suc, simp add: pairs_lex_def)






section \<open>The cached addition-energy weights\<close>











section \<open>The binomial coefficient\<close>

lemma foldl_mult: "foldl (*) (x::int) xs = x * prod_list xs"
  by (induction xs arbitrary: x) (auto simp: algebra_simps)

lemma reduce_mult: "xs \<noteq> [] \<Longrightarrow> reduce (*) xs = Inr (prod_list (xs::int list))"
  by (cases xs) (auto simp: foldl_mult)

lemma absorb: "k < n \<Longrightarrow> Suc k * (n choose Suc k) = (n - k) * (n choose k)"
proof -
  assume "k < n"
  then obtain m where n: "n = Suc m" by (cases n) auto
  have "Suc k * (Suc m choose Suc k) = Suc m * (m choose k)"
    using Suc_times_binomial_eq[of m k] by (simp add: mult.commute)
  moreover have "(Suc m - k) * (Suc m choose k) = Suc m * (m choose k)"
    using binomial_absorb_comp[of "Suc m" k] by simp
  ultimately show ?thesis unfolding n by simp
qed

lemma falling_prod:
  "k \<le> n \<Longrightarrow> prod_list [int n - int k + 1..int n] = int (fact k * (n choose k))"
proof (induction k)
  case 0
  then show ?case by simp
next
  case (Suc k)
  then have kn: "k < n" by simp
  have "[int n - int (Suc k) + 1..int n] = (int n - int k) # [int n - int k + 1..int n]"
    using kn by (subst upto.simps) simp
  then have "prod_list [int n - int (Suc k) + 1..int n]
      = (int n - int k) * int (fact k * (n choose k))"
    using Suc by simp
  also have "\<dots> = int ((n - k) * (fact k * (n choose k)))"
    using kn by (simp add: of_nat_diff)
  also have "(n - k) * (fact k * (n choose k)) = fact (Suc k) * (n choose Suc k)"
  proof -
    have "fact (Suc k) * (n choose Suc k) = fact k * (Suc k * (n choose Suc k))"
      by (simp add: algebra_simps)
    also have "\<dots> = fact k * ((n - k) * (n choose k))"
      by (simp only: absorb[OF kn])
    finally show ?thesis by (simp add: mult.assoc mult.left_commute)
  qed
  finally show ?case .
qed

lemma fact_prod_list: "prod_list [1..int k] = int (fact k)"
  using falling_prod[of k k] by simp

lemma ncr_core:
  assumes "0 < k" "k \<le> n"
  shows "(case reduce (*) (range_down (int n) (int n - int k)) of
              Inl e \<Rightarrow> Inl e
            | Inr numer \<Rightarrow>
                (case reduce (*) (range2 1 (int k + 1)) of
                   Inl e \<Rightarrow> Inl e
                 | Inr denom \<Rightarrow> floordiv numer denom)) = Inr (int (n choose k))"
proof -
  have ne1: "range_down (int n) (int n - int k) \<noteq> []"
    using assms by (simp add: range_down_def)
  have ne2: "range2 1 (int k + 1) \<noteq> []"
    using assms by (simp add: range2_def)
  have p1: "prod_list (range_down (int n) (int n - int k)) = int (fact k * (n choose k))"
    using falling_prod[OF assms(2)] by (simp add: range_down_def prod_list.rev)
  have p2: "prod_list (range2 1 (int k + 1)) = int (fact k)"
    using fact_prod_list[of k] by (simp add: range2_def)
  have nz: "int (fact k) \<noteq> 0" by simp
  show ?thesis
    unfolding reduce_mult[OF ne1] reduce_mult[OF ne2] p1 p2
    using nz by (simp add: floordiv_def del: of_nat_fact)
qed

text \<open>
  Claim C8. For integers \<open>0 \<le> r \<le> n\<close>, \<^verbatim>\<open>ncr(n, r)\<close> returns the binomial coefficient
  of \<open>n\<close> over \<open>r\<close> exactly, it returns 1 when \<open>r = 0\<close>, and the two products it forms
  have as many factors as the smaller of \<open>r\<close> and \<open>n - r\<close>.
\<close>

theorem ncr_exact:
  assumes "0 \<le> r" "r \<le> n"
  shows "ncr n r = Inr (int (nat n choose nat r))
       \<and> (r = 0 \<longrightarrow> ncr n r = Inr 1)
       \<and> length (range_down n (n - min r (n - r))) = nat (min r (n - r))
       \<and> length (range2 1 (min r (n - r) + 1)) = nat (min r (n - r))"
proof -
  define N R where "N = nat n" and "R = nat r"
  have n: "n = int N" and r: "r = int R" and RN: "R \<le> N"
    using assms by (simp_all add: N_def R_def)
  define K where "K = min R (N - R)"
  have K: "min r (n - r) = int K"
    using RN unfolding n r K_def min_def by (auto simp: of_nat_diff)
  have KN: "K \<le> N" by (simp add: K_def)
  have sym: "N choose K = N choose R"
    using RN binomial_symmetric[of R N] by (simp add: K_def min_def)
  have main: "ncr n r = Inr (int (N choose R))"
  proof (cases "K = 0")
    case True
    then have "R = 0 \<or> R = N" using RN by (auto simp: K_def min_def split: if_splits)
    then have "N choose R = 1" by auto
    then show ?thesis using True K by (simp add: ncr_def)
  next
    case False
    then have "0 < K" by simp
    have Kz: "int K \<noteq> 0" using False by simp
    have "ncr n r = (case reduce (*) (range_down (int N) (int N - int K)) of
              Inl e \<Rightarrow> Inl e
            | Inr numer \<Rightarrow>
                (case reduce (*) (range2 1 (int K + 1)) of
                   Inl e \<Rightarrow> Inl e
                 | Inr denom \<Rightarrow> floordiv numer denom))"
      unfolding ncr_def K Let_def using Kz by (simp add: n)
    then show ?thesis
      using ncr_core[OF \<open>0 < K\<close> KN] sym by simp
  qed
  have l1: "length (range_down n (n - min r (n - r))) = nat (min r (n - r))"
    unfolding K n range_down_def by simp
  have l2: "length (range2 1 (min r (n - r) + 1)) = nat (min r (n - r))"
    unfolding K range2_def by simp
  show ?thesis using main l1 l2 by (auto simp: N_def R_def)
qed

theorem ncr_exact_witness: "ncr 5 2 = Inr 10"
proof -
  have h: "(0::int) \<le> 2" "(2::int) \<le> 5" by simp_all
  have b: "nat 5 choose nat 2 = (10::nat)" by (simp add: eval_nat_numeral)
  have "ncr 5 2 = Inr (int (nat 5 choose nat 2))"
    using ncr_exact[OF h] by (rule conjunct1)
  then show ?thesis by (simp only: b) simp
qed

end
